theory Spec2Isabelle
  imports Complex_Main
begin

section \<open>Text: characters, case and the two regular expressions of app.py\<close>

text \<open>
  A Python \<open>str\<close> is modelled as a \<open>string\<close> whose characters are the code points
  below 256; the character classes below are Python's Unicode classes on that range.
\<close>

definition code :: "char \<Rightarrow> nat" where
  "code c = of_char c"

definition is_digit :: "char \<Rightarrow> bool" where
  \<comment> \<open>\<open>\d\<close>: the decimal digits.\<close>
  "is_digit c = (48 \<le> code c \<and> code c \<le> 57)"

definition is_space :: "char \<Rightarrow> bool" where
  \<comment> \<open>\<open>\s\<close> and \<open>str.strip()\<close>: tab to carriage return, the four separators
     28 to 31, space, next-line and no-break space.\<close>
  "is_space c = (let n = code c in
     (9 \<le> n \<and> n \<le> 13) \<or> (28 \<le> n \<and> n \<le> 32) \<or> n = 133 \<or> n = 160)"

definition is_word :: "char \<Rightarrow> bool" where
  \<comment> \<open>\<open>\w\<close>: the alphanumeric characters and the underscore.\<close>
  "is_word c = (let n = code c in
     (48 \<le> n \<and> n \<le> 57) \<or> (65 \<le> n \<and> n \<le> 90) \<or> n = 95 \<or> (97 \<le> n \<and> n \<le> 122)
     \<or> n = 170 \<or> n = 178 \<or> n = 179 \<or> n = 181 \<or> n = 185 \<or> n = 186
     \<or> (188 \<le> n \<and> n \<le> 190) \<or> (192 \<le> n \<and> n \<le> 214) \<or> (216 \<le> n \<and> n \<le> 246)
     \<or> 248 \<le> n)"

definition not_newline :: "char \<Rightarrow> bool" where
  \<comment> \<open>\<open>.\<close> without DOTALL.\<close>
  "not_newline c = (code c \<noteq> 10)"

definition any_char :: "char \<Rightarrow> bool" where
  \<comment> \<open>\<open>.\<close> with DOTALL.\<close>
  "any_char c = True"

definition is_dollar :: "char \<Rightarrow> bool" where
  "is_dollar c = (c = CHR ''$'')"

definition is_dot :: "char \<Rightarrow> bool" where
  "is_dot c = (c = CHR ''.'')"

definition lower_char :: "char \<Rightarrow> char" where
  "lower_char c = (let n = code c in
     if (65 \<le> n \<and> n \<le> 90) \<or> (192 \<le> n \<and> n \<le> 222 \<and> n \<noteq> 215)
     then char_of (n + 32) else c)"

definition lower :: "string \<Rightarrow> string" where
  \<comment> \<open>\<open>str.lower()\<close>\<close>
  "lower s = map lower_char s"

definition strip :: "string \<Rightarrow> string" where
  \<comment> \<open>\<open>str.strip()\<close>\<close>
  "strip s = rev (dropWhile is_space (rev (dropWhile is_space s)))"

subsection \<open>A backtracking matcher\<close>

text \<open>
  Each quantified item of a pattern is a function that takes the continuation of the
  pattern, the text this item has consumed so far and the rest of the input. A greedy
  item tries the longer alternative first, a lazy one the shorter, and the first
  alternative under which the continuation succeeds is the match, as in \<open>re\<close>.
\<close>

fun greedy_star :: "(char \<Rightarrow> bool) \<Rightarrow> (string \<Rightarrow> string \<Rightarrow> 'a option) \<Rightarrow> string \<Rightarrow> string \<Rightarrow> 'a option" where
  "greedy_star P k acc [] = k acc []"
| "greedy_star P k acc (c # cs) =
     (if P c then
        (case greedy_star P k (acc @ [c]) cs of
           Some r \<Rightarrow> Some r
         | None \<Rightarrow> k acc (c # cs))
      else k acc (c # cs))"

definition greedy_plus :: "(char \<Rightarrow> bool) \<Rightarrow> (string \<Rightarrow> string \<Rightarrow> 'a option) \<Rightarrow> string \<Rightarrow> 'a option" where
  "greedy_plus P k s =
     (case s of
        [] \<Rightarrow> None
      | c # cs \<Rightarrow> if P c then greedy_star P k [c] cs else None)"

fun lazy_star :: "(char \<Rightarrow> bool) \<Rightarrow> (string \<Rightarrow> string \<Rightarrow> 'a option) \<Rightarrow> string \<Rightarrow> string \<Rightarrow> 'a option" where
  "lazy_star P k acc [] = k acc []"
| "lazy_star P k acc (c # cs) =
     (case k acc (c # cs) of
        Some r \<Rightarrow> Some r
      | None \<Rightarrow> if P c then lazy_star P k (acc @ [c]) cs else None)"

definition greedy_opt :: "(char \<Rightarrow> bool) \<Rightarrow> (string \<Rightarrow> string \<Rightarrow> 'a option) \<Rightarrow> string \<Rightarrow> 'a option" where
  "greedy_opt P k s =
     (case s of
        [] \<Rightarrow> k [] []
      | c # cs \<Rightarrow>
          if P c then (case k [c] cs of Some r \<Rightarrow> Some r | None \<Rightarrow> k [] (c # cs))
          else k [] (c # cs))"

definition lit :: "string \<Rightarrow> (string \<Rightarrow> 'a option) \<Rightarrow> string \<Rightarrow> 'a option" where
  \<comment> \<open>a literal piece of the pattern\<close>
  "lit p k s = (if take (length p) s = p then k (drop (length p) s) else None)"

definition opt_lit :: "string \<Rightarrow> (string \<Rightarrow> 'a option) \<Rightarrow> string \<Rightarrow> 'a option" where
  \<comment> \<open>an optional literal group \<open>(?:p)?\<close>, greedy\<close>
  "opt_lit p k s = (case lit p k s of Some r \<Rightarrow> Some r | None \<Rightarrow> k s)"

fun re_search :: "(string \<Rightarrow> 'a option) \<Rightarrow> string \<Rightarrow> 'a option" where
  \<comment> \<open>\<open>re.search\<close>: the match at the leftmost position that has one\<close>
  "re_search m [] = m []"
| "re_search m (c # cs) = (case m (c # cs) of Some r \<Rightarrow> Some r | None \<Rightarrow> re_search m cs)"

subsection \<open>parse_sales_input\<close>

definition sales_pattern :: "string \<Rightarrow> (string \<times> string \<times> string) option" where
  \<comment> \<open>\<open>(\d+)\s+(\w+).*?\$?(\d+\.?\d*)\<close> anchored at the head of the input; the
     result is the three groups.\<close>
  "sales_pattern =
     greedy_plus is_digit (\<lambda>g1.
     greedy_plus is_space (\<lambda>_.
     greedy_plus is_word (\<lambda>g2.
     lazy_star not_newline (\<lambda>_.
     greedy_opt is_dollar (\<lambda>_.
     greedy_plus is_digit (\<lambda>d1.
     greedy_opt is_dot (\<lambda>dot.
     greedy_star is_digit (\<lambda>d2 _. Some (g1, g2, d1 @ dot @ d2)) [])))) [])))"

definition digit_val :: "char \<Rightarrow> nat" where
  "digit_val c = code c - 48"

definition py_int :: "string \<Rightarrow> int" where
  \<comment> \<open>\<open>int\<close> on a run of decimal digits\<close>
  "py_int ds = foldl (\<lambda>n c. 10 * n + int (digit_val c)) 0 ds"

definition py_float :: "string \<Rightarrow> rat" where
  \<comment> \<open>\<open>float\<close> on a token \<open>\d+\.?\d*\<close>, as the exact decimal it denotes; the
     rounding to a binary double is not modelled.\<close>
  "py_float tok =
     (let ip = takeWhile is_digit tok;
          fp = drop (Suc (length ip)) tok
      in of_int (py_int ip) + of_int (py_int fp) / 10 ^ length fp)"

definition parse_sales_input :: "string \<Rightarrow> string option \<times> int option \<times> rat option" where
  "parse_sales_input text =
     (case re_search sales_pattern (lower text) of
        Some (g1, g2, g3) \<Rightarrow> (Some g2, Some (py_int g1), Some (py_float g3))
      | None \<Rightarrow> (None, None, None))"

section \<open>Values, faults and the sales table\<close>

datatype pyval =
    PNone
  | PBool bool
  | PInt int
  | PFloat rat
  | PStr string
  | PList "pyval list"
  | PDict "(string \<times> pyval) list"

fun truthy :: "pyval \<Rightarrow> bool" where
  "truthy PNone = False"
| "truthy (PBool b) = b"
| "truthy (PInt n) = (n \<noteq> 0)"
| "truthy (PFloat r) = (r \<noteq> 0)"
| "truthy (PStr s) = (s \<noteq> [])"
| "truthy (PList xs) = (xs \<noteq> [])"
| "truthy (PDict kvs) = (kvs \<noteq> [])"

definition dict_get :: "(string \<times> pyval) list \<Rightarrow> string \<Rightarrow> pyval \<Rightarrow> pyval" where
  \<comment> \<open>\<open>d.get(k, default)\<close>\<close>
  "dict_get d k dflt = (case map_of d k of None \<Rightarrow> dflt | Some v \<Rightarrow> v)"

definition has_key :: "(string \<times> pyval) list \<Rightarrow> string \<Rightarrow> bool" where
  \<comment> \<open>\<open>k in d\<close>\<close>
  "has_key d k = (map_of d k \<noteq> None)"

datatype exc_class =
  JSONDecodeError | AttributeError | TypeError | OperationalError | DataError | OtherError

datatype exc = Raise exc_class string

fun exc_class_of :: "exc \<Rightarrow> exc_class" where
  "exc_class_of (Raise c m) = c"

fun str_exc :: "exc \<Rightarrow> string" where
  \<comment> \<open>\<open>str(e)\<close>\<close>
  "str_exc (Raise c m) = m"

text \<open>
  A row of the table \<open>sales\<close>. The column \<open>id\<close> is the field \<open>row_id\<close>; \<open>created_at\<close>
  is a naive timestamp, counted in seconds.
\<close>

record sale =
  row_id :: int
  item_name :: string
  quantity :: int
  price :: rat
  created_at :: nat

definition hour :: "nat \<Rightarrow> nat" where
  \<comment> \<open>\<open>created_at.hour\<close>\<close>
  "hour t = (t div 3600) mod 24"

definition minute :: "nat \<Rightarrow> nat" where
  "minute t = (t div 60) mod 60"

definition two_digits :: "nat \<Rightarrow> string" where
  "two_digits n = [char_of (48 + (n div 10) mod 10), char_of (48 + n mod 10)]"

definition strftime_HM :: "nat \<Rightarrow> string" where
  \<comment> \<open>\<open>created_at.strftime('%H:%M')\<close>\<close>
  "strftime_HM t = two_digits (hour t) @ '':'' @ two_digits (minute t)"

datatype call = ModelCall string | DbConnect

text \<open>
  The world outside the process: the table, the sequence behind \<open>id\<close>, the datastore's
  clock, whether the datastore can be reached, and the calls made to external services.
\<close>

record world =
  ledger :: "sale list"
  next_id :: int
  clock :: nat
  db_up :: bool
  calls :: "call list"

text \<open>
  What the process is given: the credential read at start-up, the language model's answer
  to a prompt, \<open>json.loads\<close>, and two parts of the table's declaration, which is not in
  app.py: how the datastore reads a text parameter that is compared with \<open>id\<close>, and
  how its columns read the three parameters of an \<open>INSERT\<close> (the values as stored). Either
  is the datastore's error when the parameter is rejected.
\<close>

record env =
  GEMINI_API_KEY :: "string option"
  generate_content :: "string \<Rightarrow> exc + string"
  json_loads :: "string \<Rightarrow> exc + pyval"
  id_of_text :: "string \<Rightarrow> exc + int"
  db_row :: "pyval \<Rightarrow> pyval \<Rightarrow> pyval \<Rightarrow> exc + string \<times> int \<times> rat"

definition get_db_connection :: "world \<Rightarrow> exc option \<times> world" where
  \<comment> \<open>\<open>psycopg2.connect\<close>: raises when the datastore cannot be reached\<close>
  "get_db_connection w =
     (if db_up w then None else Some (Raise OperationalError ''could not connect to server''),
      w\<lparr>calls := calls w @ [DbConnect]\<rparr>)"

fun insort_desc :: "('a \<Rightarrow> 'k::linorder) \<Rightarrow> 'a \<Rightarrow> 'a list \<Rightarrow> 'a list" where
  "insort_desc f x [] = [x]"
| "insort_desc f x (y # ys) = (if f y \<le> f x then x # y # ys else y # insort_desc f x ys)"

definition sort_desc :: "('a \<Rightarrow> 'k::linorder) \<Rightarrow> 'a list \<Rightarrow> 'a list" where
  \<comment> \<open>descending by key; rows with equal keys keep their order, as in
     \<open>sorted(xs, key=f, reverse=True)\<close>\<close>
  "sort_desc f xs = foldr (insort_desc f) xs []"

definition fetch_sales :: "world \<Rightarrow> (exc + sale list) \<times> world" where
  \<comment> \<open>\<open>SELECT * FROM sales ORDER BY id DESC\<close>\<close>
  "fetch_sales w =
     (case get_db_connection w of
        (Some e, w1) \<Rightarrow> (Inl e, w1)
      | (None, w1) \<Rightarrow> (Inr (sort_desc row_id (ledger w1)), w1))"

definition insert_sale :: "env \<Rightarrow> pyval \<Rightarrow> pyval \<Rightarrow> pyval \<Rightarrow> world \<Rightarrow> (exc + sale) \<times> world" where
  \<comment> \<open>\<open>INSERT INTO sales (item_name, quantity, price) VALUES (%s,%s,%s) RETURNING *\<close>:
     the datastore assigns \<open>id\<close> and \<open>created_at\<close>. When the columns reject a
     parameter the statement raises and the transaction is rolled back.\<close>
  "insert_sale e item qty prc w =
     (case get_db_connection w of
        (Some x, w1) \<Rightarrow> (Inl x, w1)
      | (None, w1) \<Rightarrow>
          (case db_row e item qty prc of
             Inl x \<Rightarrow> (Inl x, w1)
           | Inr (n, q, p) \<Rightarrow>
               (let row = \<lparr>row_id = next_id w1, item_name = n, quantity = q, price = p,
                            created_at = clock w1\<rparr>
                in (Inr row, w1\<lparr>ledger := ledger w1 @ [row], next_id := next_id w1 + 1\<rparr>))))"

datatype delete_result =
    AllDeleted string nat
  | OneDeleted string sale
  | NoSale string

fun has_error :: "delete_result \<Rightarrow> bool" where
  \<comment> \<open>\<open>'error' in result\<close>\<close>
  "has_error (NoSale m) = True"
| "has_error _ = False"

fun result_text :: "delete_result \<Rightarrow> string" where
  \<comment> \<open>\<open>result['error']\<close> where there is one, \<open>result['message']\<close> otherwise\<close>
  "result_text (AllDeleted m n) = m"
| "result_text (OneDeleted m r) = m"
| "result_text (NoSale m) = m"

fun type_name :: "pyval \<Rightarrow> string" where
  "type_name PNone = ''NoneType''"
| "type_name (PBool b) = ''bool''"
| "type_name (PInt n) = ''int''"
| "type_name (PFloat r) = ''float''"
| "type_name (PStr s) = ''str''"
| "type_name (PList xs) = ''list''"
| "type_name (PDict kvs) = ''dict''"

definition no_attribute :: "pyval \<Rightarrow> string \<Rightarrow> exc" where
  "no_attribute v a =
     Raise AttributeError ([CHR 39] @ type_name v @ [CHR 39] @ '' object has no attribute ''
       @ [CHR 39] @ a @ [CHR 39])"

definition delete_sale :: "env \<Rightarrow> pyval \<Rightarrow> world \<Rightarrow> (exc + delete_result) \<times> world" where
  \<comment> \<open>The second definition of \<open>delete_sale\<close> in app.py (line 65), which replaces the
     first: \<open>.lower()\<close> is called on the identifier itself. A fault inside the
     \<open>with\<close> block rolls the transaction back.\<close>
  "delete_sale e sale_id w =
     (case get_db_connection w of
        (Some x, w1) \<Rightarrow> (Inl x, w1)
      | (None, w1) \<Rightarrow>
          (case sale_id of
             PStr s \<Rightarrow>
               if lower s = ''all'' then
                 (Inr (AllDeleted ''All sales have been deleted'' (length (ledger w1))),
                  w1\<lparr>ledger := []\<rparr>)
               else
                 (case id_of_text e s of
                    Inl x \<Rightarrow> (Inl x, w1)
                  | Inr n \<Rightarrow>
                      (case find (\<lambda>r. row_id r = n) (ledger w1) of
                         Some r \<Rightarrow>
                           (Inr (OneDeleted (''Sale #'' @ s @ '' has been deleted'') r),
                            w1\<lparr>ledger := filter (\<lambda>r. row_id r \<noteq> n) (ledger w1)\<rparr>)
                       | None \<Rightarrow> (Inr (NoSale (''No sale found with ID '' @ s)), w1)))
           | v \<Rightarrow> (Inl (no_attribute v ''lower''), w1)))"

section \<open>compute_summary\<close>

record recent_sale =
  rs_item_name :: string
  rs_quantity :: int
  rs_price :: rat
  rs_total :: rat
  rs_time :: string

record summary =
  total_revenue :: rat
  total_sales_count :: int
  avg_order_value :: rat
  best_selling_item :: "string option"
  best_selling_quantity :: int
  items_sold :: "(string \<times> int) list"
  hourly_sales :: "(nat \<times> int) list"
  recent_sales :: "recent_sale list"

text \<open>
  A Python dict keeps its keys in insertion order, and \<open>max\<close> over its items depends on
  that order, so both dicts of the summary are association lists.
\<close>

fun dict_set :: "'k \<Rightarrow> 'v \<Rightarrow> ('k \<times> 'v) list \<Rightarrow> ('k \<times> 'v) list" where
  \<comment> \<open>\<open>d[k] = v\<close>: a present key keeps its place, a new key goes last\<close>
  "dict_set k v [] = [(k, v)]"
| "dict_set k v ((k', v') # d) = (if k' = k then (k, v) # d else (k', v') # dict_set k v d)"

definition get_or :: "('k \<times> 'v) list \<Rightarrow> 'k \<Rightarrow> 'v \<Rightarrow> 'v" where
  "get_or d k dflt = (case map_of d k of None \<Rightarrow> dflt | Some v \<Rightarrow> v)"

definition count_item :: "(string \<times> int) list \<Rightarrow> sale \<Rightarrow> (string \<times> int) list" where
  \<comment> \<open>\<open>items_sold[name] = items_sold.get(name, 0) + quantity\<close>\<close>
  "count_item d s = dict_set (item_name s) (get_or d (item_name s) 0 + quantity s) d"

fun py_max :: "('a \<times> int) \<Rightarrow> ('a \<times> int) list \<Rightarrow> ('a \<times> int)" where
  \<comment> \<open>\<open>max(items, key=lambda x: x[1])\<close>: a later item replaces the best so far only
     when its key is strictly greater\<close>
  "py_max b [] = b"
| "py_max b (x # xs) = (if snd b < snd x then py_max x xs else py_max b xs)"

definition count_hour :: "(nat \<times> int) list \<Rightarrow> sale \<Rightarrow> (nat \<times> int) list" where
  \<comment> \<open>\<open>hourly_sales[hour] += quantity\<close>; the key is always one of the 24 present\<close>
  "count_hour d s =
     map (\<lambda>(h, v). if h = hour (created_at s) then (h, v + quantity s) else (h, v)) d"

definition zero_hours :: "(nat \<times> int) list" where
  \<comment> \<open>\<open>{hour: 0 for hour in range(24)}\<close>\<close>
  "zero_hours = map (\<lambda>h. (h, 0)) [0..<24]"

definition recent_entry :: "sale \<Rightarrow> recent_sale" where
  "recent_entry s =
     \<lparr>rs_item_name = item_name s, rs_quantity = quantity s, rs_price = price s,
      rs_total = of_int (quantity s) * price s, rs_time = strftime_HM (created_at s)\<rparr>"

definition compute_summary :: "sale list \<Rightarrow> summary" where
  \<comment> \<open>Prices and totals are exact rationals; the decimal and float roundings of the
     source are not modelled.\<close>
  "compute_summary sales =
     (if sales = [] then
        \<lparr>total_revenue = 0, total_sales_count = 0, avg_order_value = 0,
         best_selling_item = None, best_selling_quantity = 0, items_sold = [],
         hourly_sales = zero_hours, recent_sales = []\<rparr>
      else
        (let revenue = sum_list (map (\<lambda>s. of_int (quantity s) * price s) sales);
             units = sum_list (map quantity sales);
             avg = revenue / of_nat (length sales);
             sold = foldl count_item [] sales;
             best = (case sold of [] \<Rightarrow> (None, 0)
                     | x # xs \<Rightarrow> (case py_max x xs of (n, q) \<Rightarrow> (Some n, q)));
             hourly = foldl count_hour zero_hours sales;
             recent = take 5 (sort_desc created_at sales)
         in \<lparr>total_revenue = revenue, total_sales_count = units, avg_order_value = avg,
             best_selling_item = fst best, best_selling_quantity = snd best,
             items_sold = sold, hourly_sales = hourly,
             recent_sales = map recent_entry recent\<rparr>))"

section \<open>The routes\<close>

datatype field = V pyval | Summary summary | Result delete_result | Row sale

text \<open>What \<open>jsonify(...)\<close> and the status code give back to the client.\<close>

record response =
  status :: nat
  body :: "(string \<times> field) list"

definition delete_sale_route :: "env \<Rightarrow> string \<Rightarrow> world \<Rightarrow> response \<times> world" where
  "delete_sale_route e sale_id w =
     (case delete_sale e (PStr sale_id) w of
        (Inl x, w1) \<Rightarrow>
          (\<lparr>status = 500,
            body = [(''status'', V (PStr ''error'')), (''message'', V (PStr (str_exc x)))]\<rparr>, w1)
      | (Inr result, w1) \<Rightarrow>
          if has_error result then
            (\<lparr>status = 404,
              body = [(''status'', V (PStr ''error'')),
                      (''message'', V (PStr (result_text result)))]\<rparr>, w1)
          else
            (\<lparr>status = 200,
              body = [(''status'', V (PStr ''success'')),
                      (''message'', V (PStr (result_text result)))]\<rparr>, w1))"

fun opt_val :: "('a \<Rightarrow> pyval) \<Rightarrow> 'a option \<Rightarrow> pyval" where
  "opt_val f None = PNone"
| "opt_val f (Some x) = f x"

definition record_sale :: "env \<Rightarrow> pyval \<Rightarrow> pyval \<Rightarrow> pyval \<Rightarrow> world \<Rightarrow> response \<times> world" where
  \<comment> \<open>the \<open>try\<close> block that ends \<open>add_sale\<close>\<close>
  "record_sale e item qty prc w =
     (case insert_sale e item qty prc w of
        (Inl x, w1) \<Rightarrow> (\<lparr>status = 500, body = [(''error'', V (PStr (str_exc x)))]\<rparr>, w1)
      | (Inr sale, w1) \<Rightarrow>
          (case fetch_sales w1 of
             (Inl x, w2) \<Rightarrow> (\<lparr>status = 500, body = [(''error'', V (PStr (str_exc x)))]\<rparr>, w2)
           | (Inr sales, w2) \<Rightarrow>
               (\<lparr>status = 201,
                 body = [(''sale'', Row sale), (''summary'', Summary (compute_summary sales)),
                         (''message'', V (PStr ''Sale recorded successfully!''))]\<rparr>, w2)))"

definition add_sale :: "env \<Rightarrow> (string \<times> pyval) list \<Rightarrow> world \<Rightarrow> (exc + response) \<times> world" where
  \<comment> \<open>\<open>Inl\<close> is a fault that no handler of the route catches: \<open>parse_sales_input\<close> is
     called outside the \<open>try\<close>, and \<open>.lower()\<close> exists on a \<open>str\<close> only.\<close>
  "add_sale e data w =
     (if has_key data ''item_name'' \<and> has_key data ''quantity'' \<and> has_key data ''price'' then
        (case record_sale e (dict_get data ''item_name'' PNone)
                (dict_get data ''quantity'' PNone) (dict_get data ''price'' PNone) w of
           (r, w1) \<Rightarrow> (Inr r, w1))
      else if has_key data ''text'' then
        (case dict_get data ''text'' PNone of
           PStr t \<Rightarrow>
             (case parse_sales_input t of
                (item, qty, prc) \<Rightarrow>
                  if item = None \<or> item = Some [] then
                    (Inr \<lparr>status = 400,
                          body = [(''error'', V (PStr ''Cannot parse sale input.''))]\<rparr>, w)
                  else
                    (case record_sale e (opt_val PStr item) (opt_val PInt qty)
                            (opt_val PFloat prc) w of
                       (r, w1) \<Rightarrow> (Inr r, w1)))
         | v \<Rightarrow> (Inl (no_attribute v ''lower''), w))
      else
        (Inr \<lparr>status = 400,
              body = [(''error'',
                V (PStr ''Invalid request format. Provide either text or item details.''))]\<rparr>, w))"

section \<open>The assistant\<close>

text \<open>
  The pictographs that open the fixed messages are not characters below 256; each is a
  constant that holds the bytes of the source's literal.
\<close>

definition warn_mark :: string where
  "warn_mark = [CHR 0xE2, CHR 0x80, CHR 0x9A, CHR 0xC3, CHR 0xB6, CHR 0xE2, CHR 0x80, CHR 0xA0,
                CHR 0xC3, CHR 0x94, CHR 0xE2, CHR 0x88, CHR 0x8F, CHR 0xC3, CHR 0xA8]"

definition ok_mark :: string where
  "ok_mark = [CHR 0xE2, CHR 0x80, CHR 0x9A, CHR 0xC3, CHR 0xBA, CHR 0xC3, CHR 0x96]"

definition fail_mark :: string where
  "fail_mark = [CHR 0xE2, CHR 0x80, CHR 0x9A, CHR 0xC3, CHR 0xB9, CHR 0xC3, CHR 0xA5]"

definition chart_mark :: string where
  "chart_mark = [CHR 0xEF, CHR 0xA3, CHR 0xBF, CHR 0xC3, CHR 0xBC, CHR 0xC3, CHR 0xAC,
                 CHR 0xC3, CHR 0xA4]"

definition persona :: string where
  \<comment> \<open>The fixed text of \<open>system_prompt\<close> (lines 217 to 311 of app.py), cut after its
     first sentence: no operation of the program reads it.\<close>
  "persona = ''You are **Laku**, a friendly Bruneian AI assistant built by Team Katalis to help small businesses track sales and gain insights.''"

definition system_prompt :: "string \<Rightarrow> string" where
  "system_prompt user_text = persona @ [CHR 0x0A] @ ''User: '' @ user_text @ [CHR 0x0A]"

definition fence_pattern :: "string \<Rightarrow> string option" where
  \<comment> \<open>\<open>```(?:json\n)?(.*?)\n```\<close> with DOTALL, anchored at the head of the input; the
     result is group 1.\<close>
  "fence_pattern =
     lit ''```'' (
     opt_lit (''json'' @ [CHR 0x0A]) (
     lazy_star any_char (\<lambda>g.
     lit ([CHR 0x0A] @ ''```'') (\<lambda>_. Some g)) []))"

definition envelope :: "pyval \<Rightarrow> string \<Rightarrow> (string \<times> field) list \<Rightarrow> response" where
  \<comment> \<open>\<open>jsonify({"ai_response": ..., "action": ..., ...})\<close>, status 200\<close>
  "envelope text tag extra =
     \<lparr>status = 200, body = [(''ai_response'', V text), (''action'', V (PStr tag))] @ extra\<rparr>"

definition chat_reply :: "(string \<times> pyval) list \<Rightarrow> response" where
  \<comment> \<open>the \<open>return\<close> for chat answers and unrecognised actions (line 392)\<close>
  "chat_reply d =
     envelope (dict_get d ''message'' (PStr ''I'm not sure how to respond to that.'')) ''chat'' []"

definition key_set :: "env \<Rightarrow> bool" where
  \<comment> \<open>the truth value of \<open>GEMINI_API_KEY\<close>\<close>
  "key_set e = (case GEMINI_API_KEY e of None \<Rightarrow> False | Some k \<Rightarrow> k \<noteq> [])"

definition remove_sale :: "env \<Rightarrow> (string \<times> pyval) list \<Rightarrow> world \<Rightarrow> (exc + response) \<times> world" where
  \<comment> \<open>the branch \<open>action == "remove_sale"\<close> (lines 351 to 376)\<close>
  "remove_sale e d w =
     (let sale_id = dict_get d ''sale_id'' PNone in
      if \<not> truthy sale_id then
        (Inr (envelope
                (PStr (warn_mark @ '' Please specify a sale ID or 'all' to remove sales''))
                ''error'' []), w)
      else if sale_id = PStr ''all'' \<and> \<not> truthy (dict_get d ''confirmed'' PNone) then
        (Inr (envelope
                (PStr (warn_mark @ '' Are you sure you want to delete ALL sales? This cannot be undone! Type 'yes, delete all' to confirm.''))
                ''confirm_delete_all'' []), w)
      else
        (case delete_sale e sale_id w of
           (Inl x, w1) \<Rightarrow> (Inl x, w1)
         | (Inr result, w1) \<Rightarrow>
             if has_error result then
               (Inr (envelope (PStr (fail_mark @ '' '' @ result_text result)) ''error'' []), w1)
             else
               (Inr (envelope (PStr (ok_mark @ '' '' @ result_text result)) ''sale_deleted''
                       [(''result'', Result result)]), w1)))"

definition dispatch :: "env \<Rightarrow> pyval \<Rightarrow> world \<Rightarrow> (exc + response) \<times> world" where
  \<comment> \<open>Lines 326 to 395: the command is run by its \<open>action\<close>. \<open>Inl\<close> is a fault raised
     inside the \<open>try\<close> blocks. A value that is not a dict has no \<open>.get\<close>. The row
     that \<open>insert_sale\<close> returns is never empty, so \<open>if sale:\<close> holds.\<close>
  "dispatch e response_data w =
     (case response_data of
        PDict d \<Rightarrow>
          (let action = dict_get d ''action'' PNone in
           if action = PStr ''add_sale'' then
             (let item = dict_get d ''item_name'' PNone;
                  qty = dict_get d ''quantity'' PNone;
                  prc = dict_get d ''price'' PNone
              in if truthy item \<and> qty \<noteq> PNone \<and> prc \<noteq> PNone then
                   (case insert_sale e item qty prc w of
                      (Inl x, w1) \<Rightarrow> (Inl x, w1)
                    | (Inr sale, w1) \<Rightarrow>
                        (Inr (envelope
                                (dict_get d ''message''
                                   (PStr (ok_mark @ '' Sale added successfully!'')))
                                ''sale_added'' []), w1))
                 else (Inr (chat_reply d), w))
           else if action = PStr ''get_summary'' then
             (case fetch_sales w of
                (Inl x, w1) \<Rightarrow> (Inl x, w1)
              | (Inr sales, w1) \<Rightarrow>
                  (Inr (envelope
                          (dict_get d ''message'' (PStr (chart_mark @ '' Sales Summary'')))
                          ''summary'' [(''summary'', Summary (compute_summary sales))]), w1))
           else if action = PStr ''remove_sale'' then remove_sale e d w
           else if action = PStr ''convert_currency'' then
             (Inr (envelope
                     (dict_get d ''message'' (PStr (chart_mark @ '' Currency Conversion'')))
                     ''convert_currency''
                     [(''amount'', V (dict_get d ''amount'' PNone)),
                      (''from_currency'', V (dict_get d ''from_currency'' PNone)),
                      (''to_currency'', V (dict_get d ''to_currency'' PNone))]), w)
           else (Inr (chat_reply d), w))
      | v \<Rightarrow> (Inl (no_attribute v ''get''), w))"

definition on_decode_error :: "(exc + response) \<times> world \<Rightarrow> (exc + response) \<times> world" where
  \<comment> \<open>\<open>except json.JSONDecodeError as e\<close> (line 397); any other fault goes on to the
     outer handler\<close>
  "on_decode_error r =
     (case r of
        (Inl x, w) \<Rightarrow>
          if exc_class_of x = JSONDecodeError then
            (Inr (envelope
                    (PStr (warn_mark @ '' I had trouble processing that request. '' @ str_exc x))
                    ''error'' []), w)
          else (Inl x, w)
      | _ \<Rightarrow> r)"

definition ask_model :: "env \<Rightarrow> string \<Rightarrow> world \<Rightarrow> (exc + response) \<times> world" where
  \<comment> \<open>the body of the outer \<open>try\<close> (lines 315 to 408)\<close>
  "ask_model e prompt w =
     (let w1 = w\<lparr>calls := calls w @ [ModelCall prompt]\<rparr> in
      case generate_content e prompt of
        Inl x \<Rightarrow> (Inl x, w1)
      | Inr reply \<Rightarrow>
          (let ai_response = strip reply in
           case re_search fence_pattern ai_response of
             None \<Rightarrow> (Inr (envelope (PStr ai_response) ''chat'' []), w1)
           | Some g \<Rightarrow>
               on_decode_error
                 (case json_loads e (strip g) of
                    Inl x \<Rightarrow> (Inl x, w1)
                  | Inr response_data \<Rightarrow> dispatch e response_data w1)))"

definition model_unavailable :: response where
  \<comment> \<open>the reply of line 215: it has an \<open>ai_response\<close> and no \<open>action\<close>\<close>
  "model_unavailable =
     \<lparr>status = 200,
      body = [(''ai_response'',
        V (PStr (warn_mark @ '' Gemini unavailable. Enter sales manually.'')))]\<rparr>"

definition no_input :: response where
  \<comment> \<open>the reply of line 212\<close>
  "no_input = \<lparr>status = 400, body = [(''error'', V (PStr ''No input''))]\<rparr>"

definition ai_assistant :: "env \<Rightarrow> (string \<times> pyval) list \<Rightarrow> world \<Rightarrow> (exc + response) \<times> world" where
  \<comment> \<open>\<open>Inl\<close> is a fault that reaches the boundary: the prompt is built before the
     \<open>try\<close>, and \<open>str + x\<close> raises unless \<open>x\<close> is a \<open>str\<close>.\<close>
  "ai_assistant e request_json w =
     (let user_text = dict_get request_json ''user_text'' PNone in
      if \<not> truthy user_text then
        (Inr no_input, w)
      else if \<not> key_set e then
        (Inr model_unavailable, w)
      else
        (case user_text of
           PStr t \<Rightarrow>
             (case ask_model e (system_prompt t) w of
                (Inl x, w1) \<Rightarrow>
                  (Inr (envelope (PStr (warn_mark @ '' An error occurred: '' @ str_exc x))
                          ''error'' []), w1)
              | (Inr r, w1) \<Rightarrow> (Inr r, w1))
         | v \<Rightarrow>
             (Inl (Raise TypeError
                     (''can only concatenate str (not '' @ [CHR 34] @ type_name v @ [CHR 34]
                        @ '') to str'')), w)))"

subsection \<open>What the claims say of a reply\<close>

definition is_str :: "pyval \<Rightarrow> bool" where
  \<comment> \<open>\<open>isinstance(v, str)\<close>\<close>
  "is_str v = (case v of PStr s \<Rightarrow> True | _ \<Rightarrow> False)"

definition has_field :: "response \<Rightarrow> string \<Rightarrow> bool" where
  "has_field r k = (map_of (body r) k \<noteq> None)"

definition is_envelope :: "exc + response \<Rightarrow> bool" where
  \<comment> \<open>a reply, not a fault, that carries both \<open>ai_response\<close> and \<open>action\<close>\<close>
  "is_envelope r =
     (case r of
        Inl x \<Rightarrow> False
      | Inr a \<Rightarrow> has_field a ''ai_response'' \<and> has_field a ''action'')"

definition action_tags :: "string list" where
  "action_tags =
     [''sale_added'', ''summary'', ''error'', ''confirm_delete_all'', ''sale_deleted'',
      ''convert_currency'', ''chat'']"

definition error_envelope :: "string \<Rightarrow> response" where
  "error_envelope m = envelope (PStr m) ''error'' []"

section \<open>Concrete inputs\<close>

text \<open>
  A datastore whose \<open>id\<close> is an integer column, which reads plain decimal text as an id
  and rejects any other text, and whose other columns take a \<open>str\<close>, an \<open>int\<close> and a
  number; a ledger of two rows; a language model whose reply is a fenced block that
  \<open>json.loads\<close> turns into a given command.
\<close>

definition decimal_id :: "string \<Rightarrow> exc + int" where
  "decimal_id s =
     (if s \<noteq> [] \<and> list_all is_digit s then Inr (py_int s)
      else Inl (Raise DataError
                  (''invalid input syntax for type integer: '' @ [CHR 34] @ s @ [CHR 34])))"

fun text_col :: "pyval \<Rightarrow> string option" where
  "text_col (PStr s) = Some s"
| "text_col _ = None"

fun int_col :: "pyval \<Rightarrow> int option" where
  "int_col (PInt n) = Some n"
| "int_col _ = None"

fun num_col :: "pyval \<Rightarrow> rat option" where
  "num_col (PInt n) = Some (of_int n)"
| "num_col (PFloat r) = Some r"
| "num_col _ = None"

definition typed_row :: "pyval \<Rightarrow> pyval \<Rightarrow> pyval \<Rightarrow> exc + string \<times> int \<times> rat" where
  "typed_row item qty prc =
     (case (text_col item, int_col qty, num_col prc) of
        (Some n, Some q, Some p) \<Rightarrow> Inr (n, q, p)
      | _ \<Rightarrow> Inl (Raise DataError ''value of the wrong type for its column''))"

definition shop :: world where
  "shop =
     \<lparr>ledger = [\<lparr>row_id = 1, item_name = ''eggs'', quantity = 3, price = 2, created_at = 36000\<rparr>,
                \<lparr>row_id = 2, item_name = ''milk'', quantity = 1, price = 3, created_at = 50400\<rparr>],
      next_id = 3, clock = 60000, db_up = True, calls = []\<rparr>"

definition fenced :: "string \<Rightarrow> string" where
  "fenced s = ''```json'' @ [CHR 0x0A] @ s @ [CHR 0x0A] @ ''```''"

definition scripted :: "pyval \<Rightarrow> env" where
  "scripted v =
     \<lparr>GEMINI_API_KEY = Some ''key'', generate_content = (\<lambda>p. Inr (fenced ''{}'')),
      json_loads = (\<lambda>s. Inr v), id_of_text = decimal_id, db_row = typed_row\<rparr>"

definition no_key :: env where
  "no_key = (scripted PNone)\<lparr>GEMINI_API_KEY := None\<rparr>"

definition three_sales :: "sale list" where
  \<comment> \<open>eggs 3 at 2.0 at 10:00, eggs 2 at 2.0 at 10:30, milk 1 at 3.0 at 14:00\<close>
  "three_sales =
     [\<lparr>row_id = 1, item_name = ''eggs'', quantity = 3, price = 2, created_at = 36000\<rparr>,
      \<lparr>row_id = 2, item_name = ''eggs'', quantity = 2, price = 2, created_at = 37800\<rparr>,
      \<lparr>row_id = 3, item_name = ''milk'', quantity = 1, price = 3, created_at = 50400\<rparr>]"

section \<open>The summary of an empty ledger\<close>

text \<open>
  C4. On the empty collection \<open>compute_summary\<close> returns revenue 0, count 0 and average 0
  (no division takes place), no best-selling item with quantity 0, empty \<open>items_sold\<close>
  and \<open>recent_sales\<close>, and an \<open>hourly_sales\<close> whose keys are exactly the 24 hours
  0 to 23, each mapped to 0.
\<close>

theorem compute_summary_empty:
  "compute_summary [] =
     \<lparr>total_revenue = 0, total_sales_count = 0, avg_order_value = 0,
      best_selling_item = None, best_selling_quantity = 0, items_sold = [],
      hourly_sales = map (\<lambda>h. (h, 0)) [0..<24], recent_sales = []\<rparr>
   \<and> map fst (hourly_sales (compute_summary [])) = [0..<24]
   \<and> length (hourly_sales (compute_summary [])) = 24
   \<and> (\<forall>h < 24. map_of (hourly_sales (compute_summary [])) h = Some 0)"
  by (simp add: compute_summary_def zero_hours_def map_of_map_restrict restrict_map_def comp_def)

theorem compute_summary_empty_witness:
  "(7::nat) < 24 \<and> map_of (hourly_sales (compute_summary [])) 7 = Some 0"
proof -
  have h: "(7::nat) < 24" by simp
  have "\<forall>h<24. map_of (hourly_sales (compute_summary [])) h = Some 0"
    using compute_summary_empty by (elim conjE)
  with h show ?thesis by blast
qed

end
